theory Spec2Isabelle
  imports Complex_Main
begin

section \<open>Runtime values\<close>

text \<open>
  The controllers are TypeScript running on a JavaScript engine. Rows delivered by the
  entity store and request bodies are plain objects whose properties are read by name, so
  a property that the object does not carry reads as \<open>undefined\<close> and arithmetic on it
  gives \<open>NaN\<close>. The scalar values are modelled as they are at run time; numbers are
  exact rationals (binary rounding is not modelled) together with \<open>NaN\<close>. JSON-valued
  columns (objects, arrays) play no part in the checks below and are left out.
\<close>

datatype jsval = JUndefined | JNull | JBool bool | JNum rat | JNaN | JStr string

type_synonym row = "string \<rightharpoonup> jsval"

type_synonym table = "row list"

definition field :: "row \<Rightarrow> string \<Rightarrow> jsval" where
  \<comment> \<open>\<open>obj.k\<close>: a missing property reads as \<open>undefined\<close>.\<close>
  "field r k = (case r k of None \<Rightarrow> JUndefined | Some v \<Rightarrow> v)"

fun truthy :: "jsval \<Rightarrow> bool" where
  "truthy JUndefined = False"
| "truthy JNull = False"
| "truthy (JBool b) = b"
| "truthy (JNum x) = (x \<noteq> 0)"
| "truthy JNaN = False"
| "truthy (JStr s) = (s \<noteq> [])"

definition strict_eq :: "jsval \<Rightarrow> jsval \<Rightarrow> bool" where
  \<comment> \<open>\<open>a === b\<close>: same type and same value; \<open>NaN\<close> equals nothing.\<close>
  "strict_eq a b = (a = b \<and> a \<noteq> JNaN)"

definition opt_str :: "string option \<Rightarrow> jsval" where
  \<comment> \<open>An optional string field (\<open>country_id?: string\<close>): absent reads as \<open>undefined\<close>.\<close>
  "opt_str s = (case s of None \<Rightarrow> JUndefined | Some x \<Rightarrow> JStr x)"

fun digit_of :: "char \<Rightarrow> nat option" where
  "digit_of c =
     (let n = (of_char c :: nat) in if 48 \<le> n \<and> n \<le> 57 then Some (n - 48) else None)"

fun digits_value :: "nat \<Rightarrow> string \<Rightarrow> nat option" where
  "digits_value acc [] = Some acc"
| "digits_value acc (c # cs) =
     (case digit_of c of None \<Rightarrow> None | Some d \<Rightarrow> digits_value (10 * acc + d) cs)"

fun to_number :: "jsval \<Rightarrow> jsval" where
  \<comment> \<open>\<open>ToNumber\<close>. Of the string forms only plain decimal digit sequences are read
      (and the empty string, which is 0); signs, fractions and exponents inside strings
      go to \<open>NaN\<close> here. The store delivers numeric columns as numbers.\<close>
  "to_number JUndefined = JNaN"
| "to_number JNull = JNum 0"
| "to_number (JBool b) = JNum (if b then 1 else 0)"
| "to_number (JNum x) = JNum x"
| "to_number JNaN = JNaN"
| "to_number (JStr s) = (case digits_value 0 s of None \<Rightarrow> JNaN | Some n \<Rightarrow> JNum (of_nat n))"

fun num_op :: "(rat \<Rightarrow> rat \<Rightarrow> jsval) \<Rightarrow> jsval \<Rightarrow> jsval \<Rightarrow> jsval" where
  "num_op f a b =
     (case (to_number a, to_number b) of
        (JNum x, JNum y) \<Rightarrow> f x y
      | _ \<Rightarrow> JNaN)"

definition js_mul :: "jsval \<Rightarrow> jsval \<Rightarrow> jsval" where
  "js_mul = num_op (\<lambda>x y. JNum (x * y))"

definition js_sub :: "jsval \<Rightarrow> jsval \<Rightarrow> jsval" where
  "js_sub = num_op (\<lambda>x y. JNum (x - y))"

definition js_div :: "jsval \<Rightarrow> jsval \<Rightarrow> jsval" where
  \<comment> \<open>\<open>0/0\<close> is \<open>NaN\<close>; \<open>x/0\<close> for \<open>x \<noteq> 0\<close> is an infinity, which the model has
      no value for and also sends to \<open>NaN\<close> (the divisors in the modelled code are the
      constant 100 and the page limit).\<close>
  "js_div = num_op (\<lambda>x y. if y = 0 then JNaN else JNum (x / y))"

definition math_min :: "jsval \<Rightarrow> jsval \<Rightarrow> jsval" where
  \<comment> \<open>\<open>Math.min(a, b)\<close>: \<open>NaN\<close> if either argument converts to \<open>NaN\<close>.\<close>
  "math_min = num_op (\<lambda>x y. JNum (min x y))"

section \<open>The entity store\<close>

text \<open>
  A table is the list of its rows. \<open>.eq(col, v)\<close> keeps the rows whose column equals
  the value (SQL \<open>NULL\<close> equals nothing), and \<open>.single()\<close> yields the row when exactly
  one is left and an error (no data) otherwise.
\<close>

definition col_eq :: "string \<Rightarrow> jsval \<Rightarrow> row \<Rightarrow> bool" where
  "col_eq c v r = (v \<noteq> JNull \<and> v \<noteq> JUndefined \<and> v \<noteq> JNaN \<and> r c = Some v)"

definition single :: "table \<Rightarrow> row option" where
  "single rs = (case rs of [r] \<Rightarrow> Some r | _ \<Rightarrow> None)"

definition by_id :: "table \<Rightarrow> string \<Rightarrow> row option" where
  \<comment> \<open>\<open>.select('*').eq('id', id).single()\<close>\<close>
  "by_id t i = single (filter (col_eq ''id'' (JStr i)) t)"

definition update_where :: "(row \<Rightarrow> bool) \<Rightarrow> row \<Rightarrow> table \<Rightarrow> table" where
  \<comment> \<open>\<open>.update(data)\<close> under filters: the columns named in \<open>data\<close> are overwritten in
      every row the filters keep.\<close>
  "update_where P d t = map (\<lambda>r. if P r then r ++ d else r) t"

definition delete_where :: "(row \<Rightarrow> bool) \<Rightarrow> table \<Rightarrow> table" where
  "delete_where P t = filter (\<lambda>r. \<not> P r) t"

record db =
  orders :: table
  stores :: table
  categories :: table
  store_categories :: table
  admins :: table
  countries :: table
  cities :: table
  users :: table
  ratings :: table
  media :: table
  payment_options :: table

section \<open>Principals and responses\<close>

datatype AdminRole = SUPER_ADMIN | ADMIN | FINANCE | SUPPORT | OPERATOR

fun role_str :: "AdminRole \<Rightarrow> string" where
  "role_str SUPER_ADMIN = ''super_admin''"
| "role_str ADMIN = ''admin''"
| "role_str FINANCE = ''finance''"
| "role_str SUPPORT = ''support''"
| "role_str OPERATOR = ''operator''"

text \<open>
  \<open>req.admin\<close>, the decoded token attached by \<open>authMiddleware\<close>:
  \<open>{ id: string; role: AdminRole; country_id?: string; city_id?: string }\<close>.
  It is absent on routes mounted without the middleware.
\<close>

record principal =
  ident :: string
  role :: AdminRole
  country_id :: "string option"
  city_id :: "string option"

definition not_super :: "principal option \<Rightarrow> bool" where
  \<comment> \<open>\<open>req.admin?.role !== AdminRole.SUPER_ADMIN\<close>\<close>
  "not_super a = (case a of None \<Rightarrow> True | Some p \<Rightarrow> role p \<noteq> SUPER_ADMIN)"

definition admin_country :: "principal option \<Rightarrow> jsval" where
  \<comment> \<open>\<open>req.admin?.country_id\<close>\<close>
  "admin_country a = (case a of None \<Rightarrow> JUndefined | Some p \<Rightarrow> opt_str (country_id p))"

definition admin_city :: "principal option \<Rightarrow> jsval" where
  \<comment> \<open>\<open>req.admin?.city_id\<close>\<close>
  "admin_city a = (case a of None \<Rightarrow> JUndefined | Some p \<Rightarrow> opt_str (city_id p))"

definition admin_ident :: "principal option \<Rightarrow> jsval" where
  \<comment> \<open>\<open>req.admin?.id\<close>\<close>
  "admin_ident a = (case a of None \<Rightarrow> JUndefined | Some p \<Rightarrow> JStr (ident p))"

text \<open>
  \<open>ResponseHandler.success(res, status, message, data)\<close> and
  \<open>ResponseHandler.error(res, status, message)\<close>: the HTTP status and the message of the
  envelope. The data payload of a mutation (the re-fetched row) is not modelled.
\<close>

datatype response = Success nat string | Error nat string

fun status_code :: "response \<Rightarrow> nat" where
  "status_code (Success n m) = n"
| "status_code (Error n m) = n"

fun is_error :: "response \<Rightarrow> bool" where
  "is_error (Success n m) = False"
| "is_error (Error n m) = True"


text \<open>
  The outcome of an access check: it lets the request through, answers 403 with a reason,
  or throws (a property read on a \<open>null\<close> join), which the handler's \<open>catch\<close> turns
  into a 500.
\<close>

datatype access = Allowed | Denied string | Thrown

text \<open>
  Reads are taken to succeed. A write may be refused by the store (a constraint, a
  failure of the service): the store's answer to the one write a handler issues is an
  input of the handler, \<open>Written\<close> or \<open>Rejected code\<close> with the store's error code.
  A refused write leaves the store as it was. Timestamp columns maintained by triggers
  are not modelled.
\<close>

datatype write_outcome = Written | Rejected string

section \<open>Order controller\<close>

definition joined_store :: "db \<Rightarrow> row \<Rightarrow> row option" where
  \<comment> \<open>the embedded \<open>stores (country_id, city_id)\<close> of an order row: the store its
      \<open>store_id\<close> references, \<open>null\<close> if there is none\<close>
  "joined_store d ord = single (filter (col_eq ''id'' (field ord ''store_id'')) (stores d))"

definition order_city_check :: "string \<Rightarrow> principal option \<Rightarrow> row option \<Rightarrow> access" where
  "order_city_check verb a st =
     (if truthy (admin_city a) then
        (case st of
           None \<Rightarrow> Thrown
         | Some s \<Rightarrow>
             if \<not> strict_eq (field s ''city_id'') (admin_city a)
             then Denied (''Cannot '' @ verb @ '' order from different city'')
             else Allowed)
      else Allowed)"

definition order_access :: "string \<Rightarrow> principal option \<Rightarrow> row option \<Rightarrow> access" where
  \<comment> \<open>the block under \<open>// Check access rights\<close>, the same in \<open>updateOrder\<close>,
      \<open>assignDriver\<close>, \<open>updateOrderStatus\<close>, \<open>updatePaymentStatus\<close> (verb modify) and
      \<open>deleteOrder\<close> (verb delete)\<close>
  "order_access verb a st =
     (if not_super a then
        (if truthy (admin_country a) then
           (case st of
              None \<Rightarrow> Thrown
            | Some s \<Rightarrow>
                if \<not> strict_eq (field s ''country_id'') (admin_country a)
                then Denied (''Cannot '' @ verb @ '' order from different country'')
                else order_city_check verb a st)
         else order_city_check verb a st)
      else Allowed)"

definition validTransitions :: "jsval \<Rightarrow> jsval list option" where
  \<comment> \<open>\<open>validTransitions[currentStatus]\<close>; a key the record does not have reads as
      \<open>undefined\<close>\<close>
  "validTransitions k =
     (if k = JStr ''pending'' then Some [JStr ''preparing'', JStr ''cancelled'']
      else if k = JStr ''preparing'' then Some [JStr ''done_preparing'', JStr ''cancelled'']
      else if k = JStr ''done_preparing'' then Some [JStr ''on_way'', JStr ''cancelled'']
      else if k = JStr ''on_way'' then Some [JStr ''delivered'', JStr ''cancelled'']
      else if k = JStr ''delivered'' then Some []
      else if k = JStr ''cancelled'' then Some []
      else None)"

definition active_payment_option :: "db \<Rightarrow> jsval \<Rightarrow> row option" where
  \<comment> \<open>\<open>.from('payment_options').select('id').eq('id', v).eq('is_active', true).single()\<close>\<close>
  "active_payment_option d v =
     single (filter (col_eq ''is_active'' (JBool True)) (filter (col_eq ''id'' v) (payment_options d)))"

definition updateOrder :: "principal option \<Rightarrow> string \<Rightarrow> row \<Rightarrow> write_outcome \<Rightarrow> db \<Rightarrow> response \<times> db" where
  "updateOrder a i data w d =
     (case by_id (orders d) i of
        None \<Rightarrow> (Error 404 ''Order not found'', d)
      | Some existingOrder \<Rightarrow>
          (case order_access ''modify'' a (joined_store d existingOrder) of
             Thrown \<Rightarrow> (Error 500 ''Failed to update order'', d)
           | Denied m \<Rightarrow> (Error 403 m, d)
           | Allowed \<Rightarrow>
               if truthy (field data ''payment_option_id'')
                  \<and> active_payment_option d (field data ''payment_option_id'') = None
               then (Error 400 ''Invalid payment option ID'', d)
               else (case w of
                       Rejected c \<Rightarrow> (Error 500 ''Failed to update order'', d)
                     | Written \<Rightarrow>
                         (Success 200 ''Order updated successfully'',
                          d\<lparr>orders := update_where (col_eq ''id'' (JStr i)) data (orders d)\<rparr>))))"

definition updateOrderStatus :: "principal option \<Rightarrow> string \<Rightarrow> jsval \<Rightarrow> write_outcome \<Rightarrow> db \<Rightarrow> response \<times> db" where
  "updateOrderStatus a i status w d =
     (case by_id (orders d) i of
        None \<Rightarrow> (Error 404 ''Order not found'', d)
      | Some existingOrder \<Rightarrow>
          (case order_access ''modify'' a (joined_store d existingOrder) of
             Thrown \<Rightarrow> (Error 500 ''Failed to update order status'', d)
           | Denied m \<Rightarrow> (Error 403 m, d)
           | Allowed \<Rightarrow>
               (case validTransitions (field existingOrder ''order_status'') of
                  None \<Rightarrow> (Error 500 ''Failed to update order status'', d)
                | Some allowed \<Rightarrow>
                    if status \<notin> set allowed
                    then (Error 400 ''Invalid status transition'', d)
                    else (case w of
                            Rejected c \<Rightarrow> (Error 500 ''Failed to update order status'', d)
                          | Written \<Rightarrow>
                              (Success 200 ''Order status updated successfully'',
                               d\<lparr>orders := update_where (col_eq ''id'' (JStr i))
                                              [''order_status'' \<mapsto> status] (orders d)\<rparr>)))))"

definition deleteOrder :: "principal option \<Rightarrow> string \<Rightarrow> write_outcome \<Rightarrow> db \<Rightarrow> response \<times> db" where
  "deleteOrder a i w d =
     (case by_id (orders d) i of
        None \<Rightarrow> (Error 404 ''Order not found'', d)
      | Some ord \<Rightarrow>
          (case order_access ''delete'' a (joined_store d ord) of
             Thrown \<Rightarrow> (Error 500 ''Failed to delete order'', d)
           | Denied m \<Rightarrow> (Error 403 m, d)
           | Allowed \<Rightarrow>
               if \<not> strict_eq (field ord ''order_status'') (JStr ''pending'')
               then (Error 400 ''Can only delete pending orders'', d)
               else (case w of
                       Rejected c \<Rightarrow> (Error 500 ''Failed to delete order'', d)
                     | Written \<Rightarrow>
                         (Success 200 ''Order deleted successfully'',
                          d\<lparr>orders := delete_where (col_eq ''id'' (JStr i)) (orders d)\<rparr>))))"

text \<open>
  The order status as the specification names it, and the forward-transition graph in
  the specification's words: pending to preparing or cancelled, preparing to
  done-preparing or cancelled, done-preparing to on-way or cancelled, on-way to delivered
  or cancelled, delivered and cancelled terminal.
\<close>

datatype OrderStatus = pending | preparing | done_preparing | on_way | delivered | cancelled

fun status_str :: "OrderStatus \<Rightarrow> string" where
  "status_str pending = ''pending''"
| "status_str preparing = ''preparing''"
| "status_str done_preparing = ''done_preparing''"
| "status_str on_way = ''on_way''"
| "status_str delivered = ''delivered''"
| "status_str cancelled = ''cancelled''"

fun spec_transition :: "OrderStatus \<Rightarrow> OrderStatus \<Rightarrow> bool" where
  "spec_transition pending t = (t = preparing \<or> t = cancelled)"
| "spec_transition preparing t = (t = done_preparing \<or> t = cancelled)"
| "spec_transition done_preparing t = (t = on_way \<or> t = cancelled)"
| "spec_transition on_way t = (t = delivered \<or> t = cancelled)"
| "spec_transition delivered t = False"
| "spec_transition cancelled t = False"

section \<open>Category controller\<close>

definition category_access :: "string \<Rightarrow> principal option \<Rightarrow> row \<Rightarrow> access" where
  \<comment> \<open>the access block of \<open>updateCategory\<close> (verb modify) and \<open>deleteCategory\<close>
      (verb delete)\<close>
  "category_access verb a c =
     (if not_super a then
        (if \<not> strict_eq (field c ''country_id'') (admin_country a)
         then Denied (''Cannot '' @ verb @ '' category from different country'')
         else if truthy (field c ''city_id'') \<and> \<not> strict_eq (field c ''city_id'') (admin_city a)
         then Denied (''Cannot '' @ verb @ '' category from different city'')
         else Allowed)
      else Allowed)"

definition media_for :: "db \<Rightarrow> jsval \<Rightarrow> string \<Rightarrow> row option" where
  \<comment> \<open>\<open>.from('media').select('*').eq('id', v).eq('purpose', p).single()\<close>\<close>
  "media_for d v p =
     single (filter (col_eq ''purpose'' (JStr p)) (filter (col_eq ''id'' v) (media d)))"

definition updateCategory :: "principal option \<Rightarrow> string \<Rightarrow> row \<Rightarrow> write_outcome \<Rightarrow> db \<Rightarrow> response \<times> db" where
  "updateCategory a i data w d =
     (case by_id (categories d) i of
        None \<Rightarrow> (Error 404 ''Category not found'', d)
      | Some existingCategory \<Rightarrow>
          (case category_access ''modify'' a existingCategory of
             Thrown \<Rightarrow> (Error 500 ''Failed to update category'', d)
           | Denied m \<Rightarrow> (Error 403 m, d)
           | Allowed \<Rightarrow>
               (let write =
                  (case w of
                     Rejected c \<Rightarrow>
                       if c = ''23505''
                       then (Error 400 ''Category name already exists in this location'', d)
                       else (Error 500 ''Failed to update category'', d)
                   | Written \<Rightarrow>
                       (Success 200 ''Category updated successfully'',
                        d\<lparr>categories := update_where (col_eq ''id'' (JStr i)) data (categories d)\<rparr>))
                in if truthy (field data ''media_id'') then
                     (case media_for d (field data ''media_id'') ''category_image'' of
                        None \<Rightarrow> (Error 400 ''Invalid media ID'', d)
                      | Some m \<Rightarrow>
                          if \<not> strict_eq (field m ''country_id'') (field existingCategory ''country_id'')
                             \<or> (truthy (field existingCategory ''city_id'')
                                 \<and> \<not> strict_eq (field m ''city_id'') (field existingCategory ''city_id''))
                          then (Error 400 ''Media location does not match category location'', d)
                          else write)
                   else write)))"

definition deleteCategory :: "principal option \<Rightarrow> string \<Rightarrow> write_outcome \<Rightarrow> db \<Rightarrow> response \<times> db" where
  "deleteCategory a i w d =
     (case by_id (categories d) i of
        None \<Rightarrow> (Error 404 ''Category not found'', d)
      | Some category \<Rightarrow>
          (case category_access ''delete'' a category of
             Thrown \<Rightarrow> (Error 500 ''Failed to delete category'', d)
           | Denied m \<Rightarrow> (Error 403 m, d)
           | Allowed \<Rightarrow>
               (let storeCount = length (filter (col_eq ''category_id'' (JStr i)) (store_categories d))
                in if storeCount \<noteq> 0 \<and> storeCount > 0
                   then (Error 400 ''Cannot delete category that is in use by stores'', d)
                   else (case w of
                           Rejected c \<Rightarrow> (Error 500 ''Failed to delete category'', d)
                         | Written \<Rightarrow>
                             (Success 200 ''Category deleted successfully'',
                              d\<lparr>categories := delete_where (col_eq ''id'' (JStr i)) (categories d)\<rparr>)))))"

section \<open>Rating controller\<close>

definition updateRating :: "principal option \<Rightarrow> string \<Rightarrow> row \<Rightarrow> write_outcome \<Rightarrow> db \<Rightarrow> response \<times> db" where
  \<comment> \<open>routed as \<open>router.put('/:id', authMiddleware, RatingController.updateRating)\<close>;
      the handler does not read \<open>req.admin\<close>\<close>
  "updateRating a i updateData w d =
     (case by_id (ratings d) i of
        None \<Rightarrow> (Error 404 ''Rating not found'', d)
      | Some existingRating \<Rightarrow>
          if \<not> truthy (field existingRating ''is_active'')
             \<or> strict_eq (field existingRating ''status'') (JStr ''reported'')
             \<or> strict_eq (field existingRating ''status'') (JStr ''rejected'')
          then (Error 400 ''Rating cannot be updated'', d)
          else (case w of
                  Rejected c \<Rightarrow> (Error 500 ''Failed to update rating'', d)
                | Written \<Rightarrow>
                    (Success 200 ''Rating updated successfully'',
                     d\<lparr>ratings := update_where (col_eq ''id'' (JStr i)) updateData (ratings d)\<rparr>)))"

section \<open>Admin controller\<close>

definition admin_access :: "string \<Rightarrow> principal option \<Rightarrow> row \<Rightarrow> access" where
  \<comment> \<open>the first three checks under \<open>// Access control checks\<close> of \<open>updateAdmin\<close>
      (verb modify) and \<open>deleteAdmin\<close> (verb delete)\<close>
  "admin_access verb a target =
     (if not_super a then
        (if strict_eq (field target ''role'') (JStr (role_str SUPER_ADMIN))
         then Denied (''Cannot '' @ verb @ '' super admin'')
         else if \<not> strict_eq (field target ''country_id'') (admin_country a)
         then Denied (''Cannot '' @ verb @ '' admin from different country'')
         else if truthy (admin_city a) \<and> \<not> strict_eq (field target ''city_id'') (admin_city a)
         then Denied (''Cannot '' @ verb @ '' admin from different city'')
         else Allowed)
      else Allowed)"

text \<open>
  \<open>bcrypt.hash(password, SALT_ROUNDS)\<close> is a parameter \<open>hash\<close> of the handlers; it
  rejects (the handler answers 500) when the password is not a string. The identifier
  the store gives a new row is the parameter \<open>new_id\<close>.
\<close>

definition createAdmin :: "(string \<Rightarrow> string) \<Rightarrow> principal option \<Rightarrow> row \<Rightarrow> string \<Rightarrow> write_outcome \<Rightarrow> db \<Rightarrow> response \<times> db" where
  "createAdmin hash a adminData new_id w d =
     (if single (filter (col_eq ''username'' (field adminData ''username'')) (admins d)) \<noteq> None
      then (Error 409 ''Username already exists'', d)
      else if not_super a \<and> \<not> strict_eq (field adminData ''country_id'') (admin_country a)
      then (Error 403 ''Cannot create admin for different country'', d)
      else if not_super a \<and> truthy (admin_city a)
              \<and> \<not> strict_eq (field adminData ''city_id'') (admin_city a)
      then (Error 403 ''Cannot create admin for different city'', d)
      else if not_super a \<and> strict_eq (field adminData ''role'') (JStr (role_str SUPER_ADMIN))
      then (Error 403 ''Cannot create super admin'', d)
      else if truthy (field adminData ''photo_media_id'')
              \<and> media_for d (field adminData ''photo_media_id'') ''profile_photo'' = None
      then (Error 400 ''Invalid photo media ID'', d)
      else if truthy (field adminData ''photo_media_id'')
              \<and> (case media_for d (field adminData ''photo_media_id'') ''profile_photo'' of
                    None \<Rightarrow> False
                  | Some m \<Rightarrow> \<not> strict_eq (field m ''country_id'') (field adminData ''country_id''))
      then (Error 400 ''Photo media must belong to the same country'', d)
      else (case field adminData ''password'' of
              JStr pw \<Rightarrow>
                (case w of
                   Rejected c \<Rightarrow> (Error 500 ''Failed to create admin'', d)
                 | Written \<Rightarrow>
                     (Success 201 ''Admin created successfully'',
                      d\<lparr>admins := admins d @
                          [[''id'' \<mapsto> JStr new_id] ++ adminData
                             ++ [''password'' \<mapsto> JStr (hash pw), ''is_active'' \<mapsto> JBool True]]\<rparr>))
            | _ \<Rightarrow> (Error 500 ''Failed to create admin'', d)))"

definition updateAdmin :: "(string \<Rightarrow> string) \<Rightarrow> principal option \<Rightarrow> string \<Rightarrow> row \<Rightarrow> write_outcome \<Rightarrow> db \<Rightarrow> response \<times> db" where
  "updateAdmin hash a i updateData w d =
     (case by_id (admins d) i of
        None \<Rightarrow> (Error 404 ''Admin not found'', d)
      | Some existingAdmin \<Rightarrow>
          (case admin_access ''modify'' a existingAdmin of
             Thrown \<Rightarrow> (Error 500 ''Failed to update admin'', d)
           | Denied m \<Rightarrow> (Error 403 m, d)
           | Allowed \<Rightarrow>
               if not_super a
                  \<and> (truthy (field updateData ''country_id'')
                      \<or> strict_eq (field updateData ''role'') (JStr (role_str SUPER_ADMIN)))
               then (Error 403 ''Invalid update parameters'', d)
               else if truthy (field updateData ''username'')
                       \<and> single (filter (\<lambda>r. \<not> col_eq ''id'' (JStr i) r)
                                   (filter (col_eq ''username'' (field updateData ''username''))
                                      (admins d))) \<noteq> None
               then (Error 409 ''Username already exists'', d)
               else if truthy (field updateData ''photo_media_id'')
                       \<and> media_for d (field updateData ''photo_media_id'') ''profile_photo'' = None
               then (Error 400 ''Invalid photo media ID'', d)
               else if truthy (field updateData ''photo_media_id'')
                       \<and> (case media_for d (field updateData ''photo_media_id'') ''profile_photo'' of
                             None \<Rightarrow> False
                           | Some m \<Rightarrow>
                               \<not> strict_eq (field m ''country_id'') (field existingAdmin ''country_id''))
               then (Error 400 ''Photo media must belong to the same country'', d)
               else (let hashed =
                       (if truthy (field updateData ''password'') then
                          (case field updateData ''password'' of
                             JStr pw \<Rightarrow> Some (updateData(''password'' \<mapsto> JStr (hash pw)))
                           | _ \<Rightarrow> None)
                        else Some updateData)
                     in case hashed of
                          None \<Rightarrow> (Error 500 ''Failed to update admin'', d)
                        | Some data \<Rightarrow>
                            (case w of
                               Rejected c \<Rightarrow> (Error 500 ''Failed to update admin'', d)
                             | Written \<Rightarrow>
                                 (Success 200 ''Admin updated successfully'',
                                  d\<lparr>admins := update_where (col_eq ''id'' (JStr i)) data (admins d)\<rparr>)))))"

definition deleteAdmin :: "principal option \<Rightarrow> string \<Rightarrow> write_outcome \<Rightarrow> db \<Rightarrow> response \<times> db" where
  "deleteAdmin a i w d =
     (case by_id (admins d) i of
        None \<Rightarrow> (Error 404 ''Admin not found'', d)
      | Some adminToDelete \<Rightarrow>
          (case admin_access ''delete'' a adminToDelete of
             Thrown \<Rightarrow> (Error 500 ''Failed to delete admin'', d)
           | Denied m \<Rightarrow> (Error 403 m, d)
           | Allowed \<Rightarrow>
               if strict_eq (JStr i) (admin_ident a)
               then (Error 400 ''Cannot delete your own account'', d)
               else (case w of
                       Rejected c \<Rightarrow> (Error 500 ''Failed to delete admin'', d)
                     | Written \<Rightarrow>
                         (Success 200 ''Admin deleted successfully'',
                          d\<lparr>admins := delete_where (col_eq ''id'' (JStr i)) (admins d)\<rparr>))))"

section \<open>Country controller\<close>

definition createCountry :: "principal option \<Rightarrow> row \<Rightarrow> string \<Rightarrow> write_outcome \<Rightarrow> db \<Rightarrow> response \<times> db" where
  "createCountry a countryData new_id w d =
     (if not_super a then (Error 403 ''Only super admin can create countries'', d)
      else if single (filter (col_eq ''code'' (field countryData ''code'')) (countries d)) \<noteq> None
      then (Error 409 ''Country code already exists'', d)
      else (case w of
              Rejected c \<Rightarrow> (Error 500 ''Failed to create country'', d)
            | Written \<Rightarrow>
                (Success 201 ''Country created successfully'',
                 d\<lparr>countries := countries d @
                     [[''id'' \<mapsto> JStr new_id] ++ countryData ++ [''is_active'' \<mapsto> JBool True]]\<rparr>)))"

definition updateCountry :: "principal option \<Rightarrow> string \<Rightarrow> row \<Rightarrow> write_outcome \<Rightarrow> db \<Rightarrow> response \<times> db" where
  "updateCountry a i updateData w d =
     (if not_super a then (Error 403 ''Only super admin can update countries'', d)
      else (case by_id (countries d) i of
              None \<Rightarrow> (Error 404 ''Country not found'', d)
            | Some existingCountry \<Rightarrow>
                (case w of
                   Rejected c \<Rightarrow> (Error 500 ''Failed to update country'', d)
                 | Written \<Rightarrow>
                     (Success 200 ''Country updated successfully'',
                      d\<lparr>countries := update_where (col_eq ''id'' (JStr i)) updateData (countries d)\<rparr>))))"

definition deleteCountry :: "principal option \<Rightarrow> string \<Rightarrow> write_outcome \<Rightarrow> db \<Rightarrow> response \<times> db" where
  "deleteCountry a i w d =
     (if not_super a then (Error 403 ''Only super admin can delete countries'', d)
      else (case by_id (countries d) i of
              None \<Rightarrow> (Error 404 ''Country not found'', d)
            | Some country \<Rightarrow>
                (let hasDependencies =
                       (length (filter (col_eq ''country_id'' (JStr i)) (cities d)) > 0
                        \<or> length (filter (col_eq ''country_id'' (JStr i)) (admins d)) > 0
                        \<or> length (filter (col_eq ''country_id'' (JStr i)) (users d)) > 0)
                 in if hasDependencies
                    then (Error 400
                            ''Cannot delete country with existing cities, admins, or users. Deactivate it instead.'',
                          d)
                    else (case w of
                            Rejected c \<Rightarrow> (Error 500 ''Failed to delete country'', d)
                          | Written \<Rightarrow>
                              (Success 200 ''Country deleted successfully'',
                               d\<lparr>countries := delete_where (col_eq ''id'' (JStr i)) (countries d)\<rparr>)))))"

section \<open>Order creation: discount and final price\<close>

text \<open>
  \<open>OrderController.createOrder\<close>, the block that computes the discount and the final
  price from the item total and the promo code row fetched by
  \<open>.from('promo_codes').select('*').eq('id', data.promo_code_id).single()\<close>.
  The result is the triple written to the new order row as
  \<open>total_item_price\<close>, \<open>discount_amount\<close> and \<open>final_price\<close>.
\<close>

definition createOrder_pricing :: "table \<Rightarrow> string option \<Rightarrow> jsval \<Rightarrow> jsval \<times> jsval \<times> jsval" where
  "createOrder_pricing promo_codes promo_code_id totalItemPrice =
     (let discountAmount =
        (if truthy (opt_str promo_code_id) then
           (case single (filter (col_eq ''id'' (opt_str promo_code_id)) promo_codes) of
              None \<Rightarrow> JNum 0
            | Some promoCode \<Rightarrow>
                (let d = (if strict_eq (field promoCode ''discount_type'') (JStr ''percentage'')
                          then js_div (js_mul totalItemPrice (field promoCode ''discount_value'')) (JNum 100)
                          else field promoCode ''discount_value'')
                 in if truthy (field promoCode ''max_discount'')
                    then math_min d (field promoCode ''max_discount'')
                    else d))
         else JNum 0);
        finalPrice = js_sub totalItemPrice discountAmount
      in (totalItemPrice, discountAmount, finalPrice))"

text \<open>
  A promo code row as the store holds it: the columns of table \<open>promo_codes\<close>
  (\<open>05_create_promo_codes.sql\<close>, interface \<open>PromoCode\<close>) that matter for pricing.
\<close>

definition promo_row :: "string \<Rightarrow> string \<Rightarrow> rat \<Rightarrow> rat option \<Rightarrow> row" where
  "promo_row i ty amount maximum =
     [''id'' \<mapsto> JStr i, ''type'' \<mapsto> JStr ty, ''discount_amount'' \<mapsto> JNum amount,
      ''maximum_discount'' \<mapsto> (case maximum of None \<Rightarrow> JNull | Some m \<Rightarrow> JNum m),
      ''is_active'' \<mapsto> JBool True]"

section \<open>List handlers: location scope and pagination\<close>


datatype list_endpoint =
    Admins | Stores | Categories | PromoCodes | Banners | Media | Ratings | Tickets
  | PaymentOptions | Cities | Orders | StoreItems | Countries















section \<open>Requests and executions\<close>

text \<open>
  The modelled handlers behind one entry point, as the routers dispatch to them, and an
  execution as a sequence of requests, each with its principal and the store's answer to
  its write.
\<close>

datatype request =
    UpdateOrder string row
  | UpdateOrderStatus string jsval
  | DeleteOrder string
  | UpdateCategory string row
  | DeleteCategory string
  | UpdateRating string row
  | CreateAdmin row string
  | UpdateAdmin string row
  | DeleteAdmin string
  | CreateCountry row string
  | UpdateCountry string row
  | DeleteCountry string

fun handle :: "(string \<Rightarrow> string) \<Rightarrow> principal option \<Rightarrow> request \<Rightarrow> write_outcome \<Rightarrow> db \<Rightarrow> response \<times> db" where
  "handle hash a (UpdateOrder i data) w d = updateOrder a i data w d"
| "handle hash a (UpdateOrderStatus i status) w d = updateOrderStatus a i status w d"
| "handle hash a (DeleteOrder i) w d = deleteOrder a i w d"
| "handle hash a (UpdateCategory i data) w d = updateCategory a i data w d"
| "handle hash a (DeleteCategory i) w d = deleteCategory a i w d"
| "handle hash a (UpdateRating i data) w d = updateRating a i data w d"
| "handle hash a (CreateAdmin data new_id) w d = createAdmin hash a data new_id w d"
| "handle hash a (UpdateAdmin i data) w d = updateAdmin hash a i data w d"
| "handle hash a (DeleteAdmin i) w d = deleteAdmin a i w d"
| "handle hash a (CreateCountry data new_id) w d = createCountry a data new_id w d"
| "handle hash a (UpdateCountry i data) w d = updateCountry a i data w d"
| "handle hash a (DeleteCountry i) w d = deleteCountry a i w d"

fun run :: "(string \<Rightarrow> string) \<Rightarrow> (principal option \<times> request \<times> write_outcome) list \<Rightarrow> db \<Rightarrow> db" where
  "run hash [] d = d"
| "run hash ((a, r, w) # evs) d = run hash evs (snd (handle hash a r w d))"

fun country_request :: "request \<Rightarrow> bool" where
  "country_request (CreateCountry data new_id) = True"
| "country_request (UpdateCountry i data) = True"
| "country_request (DeleteCountry i) = True"
| "country_request r = False"

definition super_rows :: "table \<Rightarrow> table" where
  \<comment> \<open>the super-admin accounts of table \<open>admins\<close>, in order\<close>
  "super_rows t = filter (\<lambda>r. field r ''role'' = JStr (role_str SUPER_ADMIN)) t"






section \<open>A small store for concrete runs\<close>

definition admin_A :: principal where
  "admin_A = \<lparr>ident = ''a1'', role = ADMIN, country_id = Some ''A'', city_id = None\<rparr>"



definition ex_db :: db where
  "ex_db =
     \<lparr>orders =
        [[''id'' \<mapsto> JStr ''o1'', ''store_id'' \<mapsto> JStr ''s1'', ''order_status'' \<mapsto> JStr ''pending''],
         [''id'' \<mapsto> JStr ''o2'', ''store_id'' \<mapsto> JStr ''s1'', ''order_status'' \<mapsto> JStr ''delivered''],
         [''id'' \<mapsto> JStr ''o3'', ''store_id'' \<mapsto> JStr ''s2'', ''order_status'' \<mapsto> JStr ''pending'']],
      stores =
        [[''id'' \<mapsto> JStr ''s1'', ''country_id'' \<mapsto> JStr ''A'', ''city_id'' \<mapsto> JStr ''B''],
         [''id'' \<mapsto> JStr ''s2'', ''country_id'' \<mapsto> JStr ''Z'', ''city_id'' \<mapsto> JNull]],
      categories =
        [[''id'' \<mapsto> JStr ''c1'', ''country_id'' \<mapsto> JStr ''A'', ''city_id'' \<mapsto> JNull],
         [''id'' \<mapsto> JStr ''c2'', ''country_id'' \<mapsto> JStr ''Z'', ''city_id'' \<mapsto> JNull]],
      store_categories =
        [[''id'' \<mapsto> JStr ''sc1'', ''store_id'' \<mapsto> JStr ''s1'', ''category_id'' \<mapsto> JStr ''c1'']],
      admins =
        [[''id'' \<mapsto> JStr ''a0'', ''username'' \<mapsto> JStr ''root'', ''role'' \<mapsto> JStr ''super_admin'',
          ''country_id'' \<mapsto> JNull, ''city_id'' \<mapsto> JNull],
         [''id'' \<mapsto> JStr ''a1'', ''username'' \<mapsto> JStr ''anna'', ''role'' \<mapsto> JStr ''admin'',
          ''country_id'' \<mapsto> JStr ''A'', ''city_id'' \<mapsto> JNull],
         [''id'' \<mapsto> JStr ''a2'', ''username'' \<mapsto> JStr ''zed'', ''role'' \<mapsto> JStr ''admin'',
          ''country_id'' \<mapsto> JStr ''Z'', ''city_id'' \<mapsto> JNull]],
      countries =
        [[''id'' \<mapsto> JStr ''A'', ''code'' \<mapsto> JStr ''AA''],
         [''id'' \<mapsto> JStr ''Z'', ''code'' \<mapsto> JStr ''ZZ'']],
      cities = [[''id'' \<mapsto> JStr ''B'', ''country_id'' \<mapsto> JStr ''A'']],
      users = [],
      ratings =
        [[''id'' \<mapsto> JStr ''r1'', ''country_id'' \<mapsto> JStr ''Z'', ''city_id'' \<mapsto> JNull,
          ''is_active'' \<mapsto> JBool True, ''status'' \<mapsto> JStr ''approved'',
          ''description'' \<mapsto> JStr ''good'']],
      media = [],
      payment_options = []\<rparr>"


section \<open>Verified properties\<close>

subsection \<open>Order creation\<close>

lemma createOrder_pricing_on_read_names:
  "createOrder_pricing
     [[''id'' \<mapsto> JStr ''p1'', ''discount_type'' \<mapsto> JStr ''percentage'',
       ''discount_value'' \<mapsto> JNum 20, ''max_discount'' \<mapsto> JNum 10]]
     (Some ''p1'') (JNum 100) = (JNum 100, JNum 10, JNum 90)"
  by (simp add: createOrder_pricing_def single_def col_eq_def opt_str_def field_def strict_eq_def
      js_div_def js_mul_def js_sub_def math_min_def)

text \<open>
  C1. Claim: with a promo code of type percentage, \<open>discount_amount = 20\<close> and
  \<open>maximum_discount = 10\<close> on an item total of 100 the computed discount is 10 and the
  final price 90. The code reads the properties \<open>discount_type\<close>, \<open>discount_value\<close>
  and \<open>max_discount\<close>, which a row of \<open>promo_codes\<close> does not carry: at this input the
  discount is \<open>undefined\<close> and the final price is \<open>NaN\<close>.
\<close>

theorem createOrder_pricing_schema_row:
  "createOrder_pricing [promo_row ''p1'' ''percentage'' 20 (Some 10)] (Some ''p1'') (JNum 100)
     = (JNum 100, JUndefined, JNaN)"
  by (simp add: createOrder_pricing_def promo_row_def single_def col_eq_def opt_str_def field_def
      strict_eq_def js_sub_def)

subsection \<open>Store lemmas\<close>

lemma col_eq_id_add: "d ''id'' = None \<Longrightarrow> col_eq ''id'' v (r ++ d) = col_eq ''id'' v r"
  by (simp add: col_eq_def map_add_def)

lemma filter_update_where:
  assumes "d ''id'' = None"
  shows "filter (col_eq ''id'' v) (update_where (col_eq ''id'' v) d t)
       = map (\<lambda>r. r ++ d) (filter (col_eq ''id'' v) t)"
  using assms by (induction t) (simp_all add: update_where_def col_eq_id_add)

lemma by_id_update_where:
  assumes "d ''id'' = None" "by_id t i = Some r"
  shows "by_id (update_where (col_eq ''id'' (JStr i)) d t) i = Some (r ++ d)"
  using assms
  by (auto simp: by_id_def filter_update_where single_def split: list.splits)

lemma ex_o1:
  "by_id (orders ex_db) ''o1''
     = Some [''id'' \<mapsto> JStr ''o1'', ''store_id'' \<mapsto> JStr ''s1'', ''order_status'' \<mapsto> JStr ''pending'']"
  by (simp add: ex_db_def by_id_def single_def col_eq_def)

lemma ex_o2:
  "by_id (orders ex_db) ''o2''
     = Some [''id'' \<mapsto> JStr ''o2'', ''store_id'' \<mapsto> JStr ''s1'', ''order_status'' \<mapsto> JStr ''delivered'']"
  by (simp add: ex_db_def by_id_def single_def col_eq_def)

lemma ex_access_o1:
  "order_access verb (Some admin_A)
     (joined_store ex_db
        [''id'' \<mapsto> JStr ''o1'', ''store_id'' \<mapsto> JStr ''s1'', ''order_status'' \<mapsto> JStr ''pending''])
   = Allowed"
  by (simp add: order_access_def order_city_check_def joined_store_def ex_db_def admin_A_def
      not_super_def admin_country_def admin_city_def opt_str_def field_def single_def col_eq_def
      strict_eq_def)

lemma ex_access_o2:
  "order_access verb (Some admin_A)
     (joined_store ex_db
        [''id'' \<mapsto> JStr ''o2'', ''store_id'' \<mapsto> JStr ''s1'', ''order_status'' \<mapsto> JStr ''delivered''])
   = Allowed"
  by (simp add: order_access_def order_city_check_def joined_store_def ex_db_def admin_A_def
      not_super_def admin_country_def admin_city_def opt_str_def field_def single_def col_eq_def
      strict_eq_def)

subsection \<open>Order status transitions\<close>

lemma validTransitions_defined:
  "\<exists>allowed. validTransitions (JStr (status_str c)) = Some allowed"
  by (cases c) (simp_all add: validTransitions_def)

lemma includes_iff_spec_transition:
  "validTransitions (JStr (status_str c)) = Some allowed \<Longrightarrow>
   JStr (status_str t) \<in> set allowed \<longleftrightarrow> spec_transition c t"
  by (cases c; cases t) (auto simp: validTransitions_def)

lemma updateOrderStatus_unknown_status:
  assumes "by_id (orders d) i = Some ord"
    and "field ord ''order_status'' = JStr (status_str cur)"
    and "\<And>t. s \<noteq> JStr (status_str t)"
  shows "snd (updateOrderStatus a i s w d) = d \<and> is_error (fst (updateOrderStatus a i s w d))"
proof -
  have "s \<notin> set allowed" if "validTransitions (JStr (status_str cur)) = Some allowed" for allowed
    using that assms(3)[of preparing] assms(3)[of cancelled] assms(3)[of done_preparing]
      assms(3)[of on_way] assms(3)[of delivered]
    by (cases cur) (auto simp: validTransitions_def)
  then show ?thesis
    using assms(1,2) by (auto simp: updateOrderStatus_def split: access.split option.split)
qed

text \<open>
  C2. For an order that exists with current status \<open>cur\<close> and a principal that passes the
  access check of the handler, \<open>updateOrderStatus\<close> with requested status \<open>req\<close> writes
  the requested status (answer 200, the row's \<open>order_status\<close> becomes \<open>req\<close> once the
  store has taken the write) exactly when \<open>(cur, req)\<close> is an edge of the specification's
  transition graph, and otherwise answers 400 (the validation error) with the store
  unchanged. Whatever the principal, a pair that is not an edge leaves the store
  unchanged and is answered with an error.
\<close>

theorem updateOrderStatus_follows_graph:
  assumes "by_id (orders d) i = Some ord"
    and "field ord ''order_status'' = JStr (status_str cur)"
  shows "(order_access ''modify'' a (joined_store d ord) = Allowed \<longrightarrow>
           updateOrderStatus a i (JStr (status_str req)) w d =
             (if spec_transition cur req
              then (case w of
                      Written \<Rightarrow>
                        (Success 200 ''Order status updated successfully'',
                         d\<lparr>orders := update_where (col_eq ''id'' (JStr i))
                                        [''order_status'' \<mapsto> JStr (status_str req)] (orders d)\<rparr>)
                    | Rejected c \<Rightarrow> (Error 500 ''Failed to update order status'', d))
              else (Error 400 ''Invalid status transition'', d)))
       \<and> by_id (update_where (col_eq ''id'' (JStr i))
                  [''order_status'' \<mapsto> JStr (status_str req)] (orders d)) i
            = Some (ord(''order_status'' \<mapsto> JStr (status_str req)))
       \<and> (\<not> spec_transition cur req \<longrightarrow>
            snd (updateOrderStatus a i (JStr (status_str req)) w d) = d
            \<and> is_error (fst (updateOrderStatus a i (JStr (status_str req)) w d)))"
proof -
  obtain allowed where al: "validTransitions (JStr (status_str cur)) = Some allowed"
    using validTransitions_defined by blast
  have mem: "JStr (status_str req) \<in> set allowed \<longleftrightarrow> spec_transition cur req"
    using al by (rule includes_iff_spec_transition)
  have one: "order_access ''modify'' a (joined_store d ord) = Allowed \<longrightarrow>
           updateOrderStatus a i (JStr (status_str req)) w d =
             (if spec_transition cur req
              then (case w of
                      Written \<Rightarrow>
                        (Success 200 ''Order status updated successfully'',
                         d\<lparr>orders := update_where (col_eq ''id'' (JStr i))
                                        [''order_status'' \<mapsto> JStr (status_str req)] (orders d)\<rparr>)
                    | Rejected c \<Rightarrow> (Error 500 ''Failed to update order status'', d))
              else (Error 400 ''Invalid status transition'', d))"
    using assms al mem by (simp add: updateOrderStatus_def split: write_outcome.split)
  have two: "by_id (update_where (col_eq ''id'' (JStr i))
                     [''order_status'' \<mapsto> JStr (status_str req)] (orders d)) i
              = Some (ord(''order_status'' \<mapsto> JStr (status_str req)))"
    using by_id_update_where[of "[''order_status'' \<mapsto> JStr (status_str req)]" "orders d" i ord]
      assms(1)
    by simp
  have three: "\<not> spec_transition cur req \<longrightarrow>
            snd (updateOrderStatus a i (JStr (status_str req)) w d) = d
            \<and> is_error (fst (updateOrderStatus a i (JStr (status_str req)) w d))"
    using assms al mem by (simp add: updateOrderStatus_def split: access.split)
  from one two three show ?thesis by blast
qed

theorem updateOrderStatus_follows_graph_witness:
  "updateOrderStatus (Some admin_A) ''o1'' (JStr ''preparing'') Written ex_db =
     (Success 200 ''Order status updated successfully'',
      ex_db\<lparr>orders := update_where (col_eq ''id'' (JStr ''o1''))
                         [''order_status'' \<mapsto> JStr ''preparing''] (orders ex_db)\<rparr>)
   \<and> updateOrderStatus (Some admin_A) ''o2'' (JStr ''preparing'') Written ex_db =
       (Error 400 ''Invalid status transition'', ex_db)"
  using updateOrderStatus_follows_graph [OF ex_o1, of pending "Some admin_A" preparing Written]
    updateOrderStatus_follows_graph [OF ex_o2, of delivered "Some admin_A" preparing Written]
    ex_access_o1 ex_access_o2
  by (simp add: field_def)

subsection \<open>Order deletion\<close>

text \<open>
  C10. \<open>deleteOrder\<close> succeeds only for a pending order: for an order that exists in any
  other status the store is unchanged and the answer is an error, which is the 400
  \<open>Can only delete pending orders\<close> whenever the principal passes the handler's access
  check (a principal that does not is answered 403 earlier). A call that is not answered
  with an error found the order pending and removed it.
\<close>

theorem deleteOrder_only_pending:
  assumes "by_id (orders d) i = Some ord"
  shows "(field ord ''order_status'' = JStr (status_str st) \<and> st \<noteq> pending \<longrightarrow>
            snd (deleteOrder a i w d) = d
            \<and> is_error (fst (deleteOrder a i w d))
            \<and> (order_access ''delete'' a (joined_store d ord) = Allowed \<longrightarrow>
                 deleteOrder a i w d = (Error 400 ''Can only delete pending orders'', d)))
       \<and> (\<not> is_error (fst (deleteOrder a i w d)) \<longrightarrow>
            field ord ''order_status'' = JStr ''pending''
            \<and> by_id (orders (snd (deleteOrder a i w d))) i = None)"
proof -
  have np: "field ord ''order_status'' = JStr (status_str st) \<and> st \<noteq> pending \<Longrightarrow>
            \<not> strict_eq (field ord ''order_status'') (JStr ''pending'')"
    by (cases st) (auto simp: strict_eq_def)
  have a1: "field ord ''order_status'' = JStr (status_str st) \<and> st \<noteq> pending \<longrightarrow>
            snd (deleteOrder a i w d) = d
            \<and> is_error (fst (deleteOrder a i w d))
            \<and> (order_access ''delete'' a (joined_store d ord) = Allowed \<longrightarrow>
                 deleteOrder a i w d = (Error 400 ''Can only delete pending orders'', d))"
    using assms np by (auto simp: deleteOrder_def split: access.split)
  have a2: "\<not> is_error (fst (deleteOrder a i w d)) \<longrightarrow>
            field ord ''order_status'' = JStr ''pending''
            \<and> by_id (orders (snd (deleteOrder a i w d))) i = None"
    using assms
    by (auto simp: deleteOrder_def strict_eq_def by_id_def delete_where_def single_def
        split: access.splits write_outcome.splits if_splits)
  from a1 a2 show ?thesis by blast
qed

theorem deleteOrder_only_pending_witness:
  "deleteOrder (Some admin_A) ''o2'' Written ex_db
     = (Error 400 ''Can only delete pending orders'', ex_db)
   \<and> \<not> is_error (fst (deleteOrder (Some admin_A) ''o1'' Written ex_db))
   \<and> by_id (orders (snd (deleteOrder (Some admin_A) ''o1'' Written ex_db))) ''o1'' = None"
proof -
  have ok: "\<not> is_error (fst (deleteOrder (Some admin_A) ''o1'' Written ex_db))"
    using ex_o1 ex_access_o1[of "''delete''"]
    by (simp add: deleteOrder_def strict_eq_def field_def)
  show ?thesis
    using deleteOrder_only_pending [OF ex_o2, of delivered "Some admin_A" Written]
      deleteOrder_only_pending [OF ex_o1, of pending "Some admin_A" Written]
      ex_access_o2[of "''delete''"] ok
    by (simp add: field_def)
qed

subsection \<open>Countries and super-admin accounts\<close>

lemma by_id_unique:
  assumes "by_id t i = Some r" "x \<in> set t" "col_eq ''id'' (JStr i) x"
  shows "x = r"
proof -
  from assms(1) have "filter (col_eq ''id'' (JStr i)) t = [r]"
    by (auto simp: by_id_def single_def split: list.splits)
  moreover from assms(2,3) have "x \<in> set (filter (col_eq ''id'' (JStr i)) t)" by simp
  ultimately show ?thesis by simp
qed

lemma super_rows_update_where:
  assumes "\<And>x. x \<in> set t \<Longrightarrow> P x \<Longrightarrow>
             field x ''role'' \<noteq> JStr ''super_admin'' \<and> field (x ++ data) ''role'' \<noteq> JStr ''super_admin''"
  shows "super_rows (update_where P data t) = super_rows t"
  using assms by (induction t) (auto simp: super_rows_def update_where_def)

lemma super_rows_delete_where:
  assumes "\<And>x. x \<in> set t \<Longrightarrow> P x \<Longrightarrow> field x ''role'' \<noteq> JStr ''super_admin''"
  shows "super_rows (delete_where P t) = super_rows t"
  using assms by (induction t) (auto simp: super_rows_def delete_where_def)

lemma field_add: "field (r ++ d) k = (case d k of None \<Rightarrow> field r k | Some v \<Rightarrow> v)"
  by (simp add: field_def map_add_def split: option.splits)

lemma admin_access_allowed_not_super_target:
  "not_super a \<Longrightarrow> admin_access verb a t = Allowed \<Longrightarrow> field t ''role'' \<noteq> JStr ''super_admin''"
  by (auto simp: admin_access_def strict_eq_def split: if_splits)

lemma deleteAdmin_super_rows:
  assumes "not_super a"
  shows "super_rows (admins (snd (deleteAdmin a i w d))) = super_rows (admins d)"
proof (cases "by_id (admins d) i")
  case None
  then show ?thesis by (simp add: deleteAdmin_def)
next
  case (Some t)
  show ?thesis
  proof (cases "admin_access ''delete'' a t = Allowed")
    case True
    have "super_rows (delete_where (col_eq ''id'' (JStr i)) (admins d)) = super_rows (admins d)"
      using by_id_unique[OF Some] admin_access_allowed_not_super_target[OF assms True]
      by (intro super_rows_delete_where) blast
    then show ?thesis using Some True
      by (simp add: deleteAdmin_def split: write_outcome.split)
  next
    case False
    then show ?thesis using Some by (simp add: deleteAdmin_def split: access.split)
  qed
qed

lemma updateAdmin_super_rows:
  assumes "not_super a"
  shows "super_rows (admins (snd (updateAdmin hash a i u w d))) = super_rows (admins d)"
proof (cases "by_id (admins d) i")
  case None
  then show ?thesis by (simp add: updateAdmin_def)
next
  case (Some t)
  show ?thesis
  proof (cases "admin_access ''modify'' a t = Allowed")
    case False
    then show ?thesis using Some by (simp add: updateAdmin_def split: access.split)
  next
    case True
    note tr = admin_access_allowed_not_super_target[OF assms True]
    show ?thesis
    proof (cases "strict_eq (field u ''role'') (JStr ''super_admin'')")
      case True
      then show ?thesis using Some assms \<open>admin_access ''modify'' a t = Allowed\<close>
        by (simp add: updateAdmin_def)
    next
      case False
      then have ur: "field u ''role'' \<noteq> JStr ''super_admin''" by (simp add: strict_eq_def)
      have upd: "super_rows (update_where (col_eq ''id'' (JStr i)) data (admins d)) = super_rows (admins d)"
        if "data ''role'' = u ''role''" for data
      proof (intro super_rows_update_where conjI)
        fix x assume "x \<in> set (admins d)" "col_eq ''id'' (JStr i) x"
        then have "x = t" using by_id_unique[OF Some] by blast
        then show "field x ''role'' \<noteq> JStr ''super_admin''" using tr by simp
        show "field (x ++ data) ''role'' \<noteq> JStr ''super_admin''"
          using \<open>x = t\<close> tr ur that by (auto simp: field_add field_def split: option.splits)
      qed
      show ?thesis using Some \<open>admin_access ''modify'' a t = Allowed\<close> upd
        by (auto simp: updateAdmin_def Let_def split: write_outcome.split jsval.split option.split)
    qed
  qed
qed

lemma createAdmin_super_rows:
  assumes "not_super a"
  shows "super_rows (admins (snd (createAdmin hash a u n w d))) = super_rows (admins d)"
proof (cases "strict_eq (field u ''role'') (JStr ''super_admin'')")
  case True
  then show ?thesis using assms by (simp add: createAdmin_def)
next
  case False
  then have ur: "field u ''role'' \<noteq> JStr ''super_admin''" by (simp add: strict_eq_def)
  have "field ([''id'' \<mapsto> JStr n] ++ u ++ [''password'' \<mapsto> p, ''is_active'' \<mapsto> JBool True]) ''role''
          \<noteq> JStr ''super_admin''" for p
    using ur by (auto simp: field_def map_add_def split: option.splits)
  then show ?thesis
    by (auto simp: createAdmin_def super_rows_def split: write_outcome.split jsval.split)
qed

lemma handle_preserves:
  assumes "not_super a"
  shows "countries (snd (handle hash a r w d)) = countries d
       \<and> super_rows (admins (snd (handle hash a r w d))) = super_rows (admins d)"
proof (cases r)
  case (UpdateOrder i data)
  then show ?thesis
    by (auto simp: updateOrder_def split: option.split access.split write_outcome.split)
next
  case (UpdateOrderStatus i s)
  then show ?thesis
    by (auto simp: updateOrderStatus_def split: option.split access.split write_outcome.split)
next
  case (DeleteOrder i)
  then show ?thesis
    by (auto simp: deleteOrder_def split: option.split access.split write_outcome.split)
next
  case (UpdateCategory i data)
  then show ?thesis
    by (auto simp: updateCategory_def Let_def split: option.split access.split write_outcome.split)
next
  case (DeleteCategory i)
  then show ?thesis
    by (auto simp: deleteCategory_def Let_def split: option.split access.split write_outcome.split)
next
  case (UpdateRating i data)
  then show ?thesis
    by (auto simp: updateRating_def split: option.split write_outcome.split)
next
  case (CreateAdmin data n)
  then show ?thesis using createAdmin_super_rows[OF assms]
    by (auto simp: createAdmin_def split: write_outcome.split jsval.split)
next
  case (UpdateAdmin i data)
  then show ?thesis using updateAdmin_super_rows[OF assms]
    by (auto simp: updateAdmin_def Let_def split: option.split access.split write_outcome.split)
next
  case (DeleteAdmin i)
  then show ?thesis using deleteAdmin_super_rows[OF assms]
    by (auto simp: deleteAdmin_def split: option.split access.split write_outcome.split)
next
  case (CreateCountry data n)
  then show ?thesis using assms by (simp add: createCountry_def)
next
  case (UpdateCountry i data)
  then show ?thesis using assms by (simp add: updateCountry_def)
next
  case (DeleteCountry i)
  then show ?thesis using assms by (simp add: deleteCountry_def)
qed

lemma run_preserves:
  assumes "\<forall>e \<in> set evs. not_super (fst e)"
  shows "countries (run hash evs d) = countries d
       \<and> super_rows (admins (run hash evs d)) = super_rows (admins d)"
  using assms
proof (induction evs arbitrary: d)
  case Nil
  then show ?case by simp
next
  case (Cons e evs)
  obtain a r w where e: "e = (a, r, w)" by (cases e)
  from Cons.prems e have ns: "not_super a" by simp
  from Cons.prems have rest: "\<forall>e \<in> set evs. not_super (fst e)" by simp
  show ?case
    using Cons.IH[OF rest, of "snd (handle hash a r w d)"] handle_preserves[OF ns, of hash r w d] e
    by simp
qed

lemma country_request_forbidden:
  assumes "not_super a" "country_request r"
  shows "status_code (fst (handle hash a r w d)) = 403
       \<and> is_error (fst (handle hash a r w d)) \<and> snd (handle hash a r w d) = d"
  using assms by (cases r) (simp_all add: createCountry_def updateCountry_def deleteCountry_def)

text \<open>
  C7. A country request (create, update, delete) from a principal whose role is not
  super-admin is answered 403 before anything is written. No request of such a principal
  changes table \<open>countries\<close> or the super-admin rows of table \<open>admins\<close>: it can
  neither give an account the role super-admin (by creating or by updating it) nor
  modify or delete an existing super-admin account. Both hold along every execution made
  of requests of such principals.
\<close>

theorem non_super_admin_leaves_countries_and_super_admins:
  "(not_super a \<and> country_request r \<longrightarrow>
      status_code (fst (handle hash a r w d)) = 403
      \<and> is_error (fst (handle hash a r w d)) \<and> snd (handle hash a r w d) = d)
   \<and> (not_super a \<longrightarrow>
        countries (snd (handle hash a r w d)) = countries d
        \<and> super_rows (admins (snd (handle hash a r w d))) = super_rows (admins d))
   \<and> ((\<forall>e \<in> set evs. not_super (fst e)) \<longrightarrow>
        countries (run hash evs d) = countries d
        \<and> super_rows (admins (run hash evs d)) = super_rows (admins d))"
  using country_request_forbidden[of a r hash w d] handle_preserves[of a hash r w d]
    run_preserves[of evs hash d]
  by blast

theorem non_super_admin_leaves_countries_and_super_admins_witness:
  "status_code (fst (handle (\<lambda>s. s) (Some admin_A) (DeleteCountry ''Z'') Written ex_db)) = 403
   \<and> snd (handle (\<lambda>s. s) (Some admin_A) (DeleteCountry ''Z'') Written ex_db) = ex_db
   \<and> countries (run (\<lambda>s. s)
        [(Some admin_A, CreateCountry [''code'' \<mapsto> JStr ''NN''] ''N'', Written),
         (Some admin_A, UpdateAdmin ''a1'' [''role'' \<mapsto> JStr ''super_admin''], Written),
         (Some admin_A, DeleteAdmin ''a0'', Written)] ex_db) = countries ex_db
   \<and> super_rows (admins (run (\<lambda>s. s)
        [(Some admin_A, CreateCountry [''code'' \<mapsto> JStr ''NN''] ''N'', Written),
         (Some admin_A, UpdateAdmin ''a1'' [''role'' \<mapsto> JStr ''super_admin''], Written),
         (Some admin_A, DeleteAdmin ''a0'', Written)] ex_db)) = super_rows (admins ex_db)"
proof -
  have ns: "not_super (Some admin_A)" by (simp add: not_super_def admin_A_def)
  show ?thesis
    using ns non_super_admin_leaves_countries_and_super_admins
      [of "Some admin_A" "DeleteCountry ''Z''" "\<lambda>s. s" Written ex_db
          "[(Some admin_A, CreateCountry [''code'' \<mapsto> JStr ''NN''] ''N'', Written),
            (Some admin_A, UpdateAdmin ''a1'' [''role'' \<mapsto> JStr ''super_admin''], Written),
            (Some admin_A, DeleteAdmin ''a0'', Written)]"]
    by simp
qed

subsection \<open>Deleting one's own admin account\<close>




subsection \<open>Deleting a category that is in use\<close>




subsection \<open>Mutations aimed at another country\<close>








subsection \<open>Pagination\<close>






subsection \<open>Location scope of list queries\<close>









end
